theory Spec2Isabelle
  imports Main "HOL-Library.AList"
begin

section \<open>JavaScript values\<close>

text \<open>
  A JavaScript string is modelled as a \<open>string\<close>; one \<open>char\<close> stands for one
  UTF-16 code unit, which is what \<open>length\<close>, \<open>slice\<close> and \<open>includes\<close> count.

  The body of a response is whatever \<open>JSON.parse\<close> produced. A number is
  represented by its \<open>ToString\<close> rendering (every finite number has exactly one);
  an object by its own properties in enumeration order.
\<close>

datatype json =
    JNull
  | JBool bool
  | JNum string
  | JStr string
  | JArr "json list"
  | JObj "(string \<times> json) list"

datatype js_error = TypeError

text \<open>\<open>typeof v\<close>; the argument \<open>None\<close> is \<open>undefined\<close>.\<close>

fun js_typeof :: "json option \<Rightarrow> string" where
  "js_typeof None = ''undefined''"
| "js_typeof (Some JNull) = ''object''"
| "js_typeof (Some (JBool b)) = ''boolean''"
| "js_typeof (Some (JNum n)) = ''number''"
| "js_typeof (Some (JStr s)) = ''string''"
| "js_typeof (Some (JArr xs)) = ''object''"
| "js_typeof (Some (JObj kvs)) = ''object''"

text \<open>
  \<open>k in v\<close> and \<open>v[k]\<close> for a value \<open>v\<close> that is not \<open>null\<close>. The source uses
  them with the names \<open>errors\<close>, \<open>detail\<close>, \<open>message\<close>, \<open>error\<close>,
  \<open>accessToken\<close> and \<open>refreshToken\<close> only: none of them is an array index,
  \<open>length\<close> or a property inherited from a prototype, so only the own properties of
  an object answer.
\<close>

fun js_in :: "string \<Rightarrow> json \<Rightarrow> bool" where
  "js_in k (JObj kvs) = (k \<in> fst ` set kvs)"
| "js_in k v = False"

fun js_get :: "json \<Rightarrow> string \<Rightarrow> json option" where
  "js_get (JObj kvs) k = map_of kvs k"
| "js_get v k = None"

text \<open>\<open>v.k\<close> for any value: reading a property of \<open>null\<close> throws.\<close>

fun js_member :: "json \<Rightarrow> string \<Rightarrow> js_error + json option" where
  "js_member JNull k = Inl TypeError"
| "js_member v k = Inr (js_get v k)"

text \<open>Truthiness of a string and of a parsed value.\<close>

definition truthy_string :: "string \<Rightarrow> bool" where
  "truthy_string s = (s \<noteq> [])"

fun truthy :: "json \<Rightarrow> bool" where
  "truthy JNull = False"
| "truthy (JBool b) = b"
| "truthy (JNum n) = (n \<noteq> ''0'' \<and> n \<noteq> ''-0'')"
| "truthy (JStr s) = truthy_string s"
| "truthy (JArr xs) = True"
| "truthy (JObj kvs) = True"

fun intersperse :: "string \<Rightarrow> string list \<Rightarrow> string" where
  "intersperse sep [] = []"
| "intersperse sep [x] = x"
| "intersperse sep (x # y # ys) = x @ sep @ intersperse sep (y # ys)"

text \<open>
  \<open>String(v)\<close>, the conversion \<open>localStorage.setItem\<close> applies to its value: an
  array joins its elements with commas, \<open>null\<close> elements giving the empty string.
\<close>

fun js_String :: "json \<Rightarrow> string" where
  "js_String JNull = ''null''"
| "js_String (JBool b) = (if b then ''true'' else ''false'')"
| "js_String (JNum n) = n"
| "js_String (JStr s) = s"
| "js_String (JArr xs) =
     intersperse '','' (map (\<lambda>x. if x = JNull then [] else js_String x) xs)"
| "js_String (JObj kvs) = ''[object Object]''"

text \<open>\<open>JSON.stringify\<close> of a parsed value (no indentation).\<close>

definition hex_digit :: "nat \<Rightarrow> char" where
  "hex_digit n = ''0123456789abcdef'' ! (n mod 16)"

definition quote_char :: "char \<Rightarrow> string" where
  "quote_char c =
     (if c = CHR ''\"'' then [CHR 0x5C, CHR ''\"'']
      else if c = CHR 0x5C then [CHR 0x5C, CHR 0x5C]
      else if c = CHR 0x08 then [CHR 0x5C, CHR ''b'']
      else if c = CHR 0x0C then [CHR 0x5C, CHR ''f'']
      else if c = CHR 0x0A then [CHR 0x5C, CHR ''n'']
      else if c = CHR 0x0D then [CHR 0x5C, CHR ''r'']
      else if c = CHR 0x09 then [CHR 0x5C, CHR ''t'']
      else if of_char c < (32::nat)
        then [CHR 0x5C, CHR ''u'', CHR ''0'', CHR ''0'',
              hex_digit (of_char c div 16), hex_digit (of_char c)]
      else [c])"

definition quote_string :: "string \<Rightarrow> string" where
  "quote_string s = [CHR ''\"''] @ concat (map quote_char s) @ [CHR ''\"'']"

fun JSON_stringify :: "json \<Rightarrow> string" where
  "JSON_stringify JNull = ''null''"
| "JSON_stringify (JBool b) = (if b then ''true'' else ''false'')"
| "JSON_stringify (JNum n) = n"
| "JSON_stringify (JStr s) = quote_string s"
| "JSON_stringify (JArr xs) = ''['' @ intersperse '','' (map JSON_stringify xs) @ '']''"
| "JSON_stringify (JObj kvs) =
     ''{'' @ intersperse '',''
        (map (\<lambda>kv. quote_string (fst kv) @ '':'' @ JSON_stringify (snd kv)) kvs) @ ''}''"

section \<open>String helpers\<close>

text \<open>\<open>s.includes(p)\<close>: \<open>p\<close> occurs in \<open>s\<close> as a contiguous run.\<close>

fun str_includes :: "string \<Rightarrow> string \<Rightarrow> bool" where
  "str_includes [] p = (p = [])"
| "str_includes (c # cs) p = (take (length p) (c # cs) = p \<or> str_includes cs p)"

text \<open>\<open>s.slice(0, e)\<close>: a negative end counts from the end of the string.\<close>

definition slice0 :: "string \<Rightarrow> int \<Rightarrow> string" where
  "slice0 s e = (if e < 0 then take (nat (int (length s) + e)) s else take (nat e) s)"

text \<open>\<open>common/utils/trimToMaxLength.ts\<close>; \<open>maxLength\<close> defaults to 100.\<close>

definition trimToMaxLength :: "string \<Rightarrow> int \<Rightarrow> string" where
  "trimToMaxLength str maxLength =
     (if int (length str) > maxLength then slice0 str (maxLength - 3) @ ''...'' else str)"

section \<open>Type guards on error bodies\<close>

text \<open>
  \<open>isErrorWithProperty.ts\<close>:
  \<^verbatim>\<open>typeof error === "object" && error != null && property in error &&
    typeof error[property] === "string"\<close>
\<close>

definition isErrorWithProperty :: "json \<Rightarrow> string \<Rightarrow> bool" where
  "isErrorWithProperty error property =
     (js_typeof (Some error) = ''object'' \<and> error \<noteq> JNull \<and> js_in property error \<and>
      js_typeof (js_get error property) = ''string'')"

text \<open>
  \<open>isErrorWithDetailArray.ts\<close>:
  \<^verbatim>\<open>typeof error === "object" && error !== null && "errors" in error &&
    Array.isArray(error.errors) && error.errors.length > 0 &&
    typeof error.errors[0].detail === "string"\<close>
  The first element of the array is not tested before its \<open>detail\<close> is read, so
  the guard throws when that element is \<open>null\<close>.
\<close>

definition isErrorWithDetailArray :: "json \<Rightarrow> js_error + bool" where
  "isErrorWithDetailArray error =
     (if js_typeof (Some error) = ''object'' \<and> error \<noteq> JNull \<and> js_in ''errors'' error then
        (case js_get error ''errors'' of
           Some (JArr errors) \<Rightarrow>
             (if length errors > 0 then
                (case js_member (errors ! 0) ''detail'' of
                   Inl x \<Rightarrow> Inl x
                 | Inr d \<Rightarrow> Inr (js_typeof d = ''string''))
              else Inr False)
         | _ \<Rightarrow> Inr False)
      else Inr False)"

text \<open>
  \<open>error.data.errors[0].detail\<close>, which the handlers read once the guard has
  answered \<open>true\<close>; on any other body the read does not give a string.
\<close>

definition first_detail :: "json \<Rightarrow> string option" where
  "first_detail data =
     (case js_get data ''errors'' of
        Some (JArr (e # es)) \<Rightarrow>
          (case js_get e ''detail'' of Some (JStr s) \<Rightarrow> Some s | _ \<Rightarrow> None)
      | _ \<Rightarrow> None)"

text \<open>\<open>isTokens.ts\<close>:
  \<^verbatim>\<open>typeof data === "object" && data !== null && "accessToken" in data &&
    "refreshToken" in data\<close>\<close>

definition isTokens :: "json \<Rightarrow> bool" where
  "isTokens data =
     (js_typeof (Some data) = ''object'' \<and> data \<noteq> JNull \<and>
      js_in ''accessToken'' data \<and> js_in ''refreshToken'' data)"

section \<open>Errors of a request and their display\<close>

text \<open>
  The error of a failed request, as \<open>fetchBaseQuery\<close> declares it:
  \<^verbatim>\<open>{ status: number; data: unknown }\<close>,
  \<^verbatim>\<open>{ status: 'FETCH_ERROR'; error: string }\<close>,
  \<^verbatim>\<open>{ status: 'PARSING_ERROR'; originalStatus: number; data: string; error: string }\<close>,
  \<^verbatim>\<open>{ status: 'TIMEOUT_ERROR'; error: string }\<close> and
  \<^verbatim>\<open>{ status: 'CUSTOM_ERROR'; data?: unknown; error: string }\<close>.
\<close>

datatype FetchBaseQueryError =
    HttpError nat json
  | FETCH_ERROR string
  | PARSING_ERROR nat string string
  | TIMEOUT_ERROR string
  | CUSTOM_ERROR "json option" string

text \<open>What a handler does that can be observed: a toast shown to the user, a line
  written to the developer console.\<close>

datatype effect =
    Toast string
  | ConsoleError string FetchBaseQueryError

fun shown :: "effect list \<Rightarrow> string list" where
  "shown [] = []"
| "shown (Toast m # es) = m # shown es"
| "shown (ConsoleError m e # es) = shown es"

text \<open>
  \<open>errorToast.ts\<close>:
  \<^verbatim>\<open>toast(message, { theme: "colored", type: "error" })
  if (error) { console.error(`${message}\n`, error) }\<close>
\<close>

definition errorToast :: "string \<Rightarrow> FetchBaseQueryError option \<Rightarrow> effect list" where
  "errorToast message error =
     Toast message #
     (case error of None \<Rightarrow> [] | Some e \<Rightarrow> [ConsoleError (message @ [CHR 0x0A]) e])"

text \<open>The branch shared by the statuses 400 and 403 in \<open>handleErrors.ts\<close>.\<close>

definition detail_case :: "json \<Rightarrow> js_error + effect list" where
  "detail_case data =
     (case isErrorWithDetailArray data of
        Inl x \<Rightarrow> Inl x
      | Inr True \<Rightarrow>
          (case first_detail data of
             Some detail \<Rightarrow> Inr (errorToast (trimToMaxLength detail 100) None)
           | None \<Rightarrow> Inl TypeError)
      | Inr False \<Rightarrow> Inr (errorToast (JSON_stringify data) None))"

definition property_case :: "json \<Rightarrow> string \<Rightarrow> effect list" where
  "property_case data property =
     (if isErrorWithProperty data property then
        (case js_get data property of
           Some (JStr s) \<Rightarrow> errorToast s None
         | _ \<Rightarrow> [])
      else errorToast (JSON_stringify data) None)"

definition default_case :: "FetchBaseQueryError \<Rightarrow> nat \<Rightarrow> effect list" where
  "default_case error status =
     (if status \<ge> 500 \<and> status < 600 then
        errorToast ''Server error occurred. Please try again later.'' (Some error)
      else errorToast ''Some error occurred'' None)"

text \<open>
  \<open>handleErrors.ts\<close>, as the error-handling lesson leaves it: a \<open>switch\<close> on
  \<open>error.status\<close>.
\<close>

fun handleErrors :: "FetchBaseQueryError \<Rightarrow> js_error + effect list" where
  "handleErrors (FETCH_ERROR e) = Inr (errorToast e None)"
| "handleErrors (PARSING_ERROR orig d e) = Inr (errorToast e None)"
| "handleErrors (CUSTOM_ERROR d e) = Inr (errorToast e None)"
| "handleErrors (TIMEOUT_ERROR e) = Inr (errorToast e None)"
| "handleErrors (HttpError status data) =
     (if status = 400 \<or> status = 403 then detail_case data
      else if status = 404 then Inr (property_case data ''error'')
      else if status = 401 \<or> status = 429 then Inr (property_case data ''message'')
      else Inr (default_case (HttpError status data) status))"

text \<open>
  The 400 case of the authentication lesson:
  \<^verbatim>\<open>if (isErrorWithDetailArray(error.data)) {
    const errorMessage = error.data.errors[0].detail
    if (errorMessage.includes("refreshToken")) return
    errorToast(trimToMaxLength(errorMessage))
  } else { errorToast(JSON.stringify(error.data)) }\<close>
\<close>

definition refresh_detail_case :: "json \<Rightarrow> js_error + effect list" where
  "refresh_detail_case data =
     (case isErrorWithDetailArray data of
        Inl x \<Rightarrow> Inl x
      | Inr True \<Rightarrow>
          (case first_detail data of
             Some errorMessage \<Rightarrow>
               (if str_includes errorMessage ''refreshToken'' then Inr []
                else Inr (errorToast (trimToMaxLength errorMessage 100) None))
           | None \<Rightarrow> Inl TypeError)
      | Inr False \<Rightarrow> Inr (errorToast (JSON_stringify data) None))"

text \<open>
  \<open>handleErrors.ts\<close> as the authentication lesson leaves it: the 401 case is
  removed, the 400 case is the one above, 403 keeps the branch it had.
\<close>

fun handleErrors_reauth :: "FetchBaseQueryError \<Rightarrow> js_error + effect list" where
  "handleErrors_reauth (FETCH_ERROR e) = Inr (errorToast e None)"
| "handleErrors_reauth (PARSING_ERROR orig d e) = Inr (errorToast e None)"
| "handleErrors_reauth (CUSTOM_ERROR d e) = Inr (errorToast e None)"
| "handleErrors_reauth (TIMEOUT_ERROR e) = Inr (errorToast e None)"
| "handleErrors_reauth (HttpError status data) =
     (if status = 400 then refresh_detail_case data
      else if status = 403 then detail_case data
      else if status = 404 then Inr (property_case data ''error'')
      else if status = 429 then Inr (property_case data ''message'')
      else Inr (default_case (HttpError status data) status))"

section \<open>The query cache\<close>

text \<open>
  \<open>playlistsApi.types.ts\<close>: a cached \<open>fetchPlaylists\<close> result is a
  \<open>PlaylistsResponse\<close>; the attributes of a playlist and the body of an update
  are objects, kept as their properties in enumeration order. The arguments of the
  query are \<open>pageNumber\<close>, \<open>pageSize\<close> and \<open>search\<close>, each optional, and the
  further optional fields (\<open>sortBy\<close>, \<open>tagsIds\<close>, \<open>userId\<close>, ...).
\<close>

record PlaylistData =
  playlist_id :: string
  attributes :: "(string \<times> json) list"

record PlaylistsResponse =
  data :: "PlaylistData list"
  meta :: json

record FetchPlaylistsArgs =
  pageNumber :: "nat option"
  pageSize :: "nat option"
  search :: "string option"
  other_args :: "(string \<times> json) list"

type_synonym cache = "(FetchPlaylistsArgs \<times> PlaylistsResponse) list"

section \<open>Token store and outgoing requests\<close>

text \<open>\<open>localStorage\<close>, and the keys of \<open>AUTH_KEYS\<close> in \<open>constants.ts\<close>.\<close>

type_synonym storage = "string \<rightharpoonup> string"

definition AUTH_KEYS_accessToken :: string where
  "AUTH_KEYS_accessToken = ''musicfun-access-token''"

definition AUTH_KEYS_refreshToken :: string where
  "AUTH_KEYS_refreshToken = ''musicfun-refresh-token''"

definition getItem :: "storage \<Rightarrow> string \<Rightarrow> string option" where
  "getItem s k = s k"

text \<open>\<open>setItem\<close> stores the string conversion of its value; \<open>None\<close> is
  \<open>undefined\<close>, the value of a property that is not there.\<close>

definition setItem :: "storage \<Rightarrow> string \<Rightarrow> json option \<Rightarrow> storage" where
  "setItem s k v = s(k \<mapsto> (case v of None \<Rightarrow> ''undefined'' | Some x \<Rightarrow> js_String x))"

definition removeItem :: "storage \<Rightarrow> string \<Rightarrow> storage" where
  "removeItem s k = s(k := None)"

type_synonym headers = "(string \<times> string) list"

definition Headers_set :: "string \<Rightarrow> string \<Rightarrow> headers \<Rightarrow> headers" where
  "Headers_set name v h = AList.update name v h"


text \<open>
  \<open>baseQuery.ts\<close>:
  \<^verbatim>\<open>prepareHeaders: (headers) => {
    const accessToken = localStorage.getItem(AUTH_KEYS.accessToken)
    if (accessToken) { headers.set("Authorization", `Bearer ${accessToken}`) }
    return headers
  }\<close>
\<close>

definition prepareHeaders :: "storage \<Rightarrow> headers \<Rightarrow> headers" where
  "prepareHeaders s h =
     (case getItem s AUTH_KEYS_accessToken of
        None \<Rightarrow> h
      | Some accessToken \<Rightarrow>
          (if truthy_string accessToken
           then Headers_set ''Authorization'' (''Bearer '' @ accessToken) h
           else h))"

record FetchArgs =
  url :: string
  http_method :: string
  http_body :: "json option"

record http_request =
  req_args :: FetchArgs
  req_headers :: headers

text \<open>
  The request \<open>baseQuery(args, ...)\<close> sends: the headers start from
  \<^verbatim>\<open>{ "API-KEY": import.meta.env.VITE_API_KEY }\<close> and pass through
  \<open>prepareHeaders\<close>, which reads the store when the request is made.
\<close>

definition baseQuery_request :: "string \<Rightarrow> storage \<Rightarrow> FetchArgs \<Rightarrow> http_request" where
  "baseQuery_request api_key s args =
     \<lparr>req_args = args, req_headers = prepareHeaders s [(''API-KEY'', api_key)]\<rparr>"

text \<open>What \<open>baseQuery\<close> resolves to: \<open>{ data }\<close> or \<open>{ error }\<close>.\<close>

datatype QueryResult = Data json | Error FetchBaseQueryError

definition is_401 :: "QueryResult \<Rightarrow> bool" where
  "is_401 result = (case result of Error (HttpError status d) \<Rightarrow> status = 401 | _ \<Rightarrow> False)"

text \<open>\<^verbatim>\<open>{ url: "/auth/refresh", method: "post", body: { refreshToken } }\<close> with
  \<^verbatim>\<open>refreshToken = localStorage.getItem(AUTH_KEYS.refreshToken)\<close>.\<close>

definition stored_refreshToken :: "storage \<Rightarrow> json" where
  "stored_refreshToken s =
     (case getItem s AUTH_KEYS_refreshToken of None \<Rightarrow> JNull | Some t \<Rightarrow> JStr t)"

definition refresh_args :: "storage \<Rightarrow> FetchArgs" where
  "refresh_args s =
     \<lparr>url = ''/auth/refresh'', http_method = ''post'',
      http_body = Some (JObj [(''refreshToken'', stored_refreshToken s)])\<rparr>"

text \<open>The \<open>query\<close> of the \<open>logout\<close> mutation in \<open>authApi.ts\<close>.\<close>

definition logout_args :: "storage \<Rightarrow> FetchArgs" where
  "logout_args s =
     \<lparr>url = ''auth/logout'', http_method = ''post'',
      http_body = Some (JObj [(''refreshToken'', stored_refreshToken s)])\<rparr>"

section \<open>The request coordinator\<close>

text \<open>
  \<open>baseQueryWithReauth.ts\<close> is an \<open>async\<close> function; every call of it is a task
  that runs from one \<open>await\<close> to the next without interruption. A task is
  suspended at one of these places:
  \<^item> \<open>WaitUnlock0\<close>: in the first \<^verbatim>\<open>await mutex.waitForUnlock()\<close>, the mutex being
    locked;
  \<^item> \<open>ReadyOrig\<close>: the same \<open>await\<close>, its promise resolved;
  \<^item> \<open>AwaitOrig\<close>: in \<^verbatim>\<open>let result = await baseQuery(args, ...)\<close>;
  \<^item> \<open>Acquired result\<close>: in \<^verbatim>\<open>const release = await mutex.acquire()\<close>; the mutex was
    free, so \<open>acquire\<close> has locked it already;
  \<^item> \<open>AwaitRefresh result\<close>: in \<^verbatim>\<open>const refreshResult = await baseQuery({...})\<close>;
  \<^item> \<open>AwaitRetryL\<close>: in \<^verbatim>\<open>result = await baseQuery(args, ...)\<close> inside \<open>try\<close>, the
    mutex still held;
  \<^item> \<open>WaitUnlock1\<close>: in the second \<^verbatim>\<open>await mutex.waitForUnlock()\<close>;
  \<^item> \<open>ReadyRetry\<close>: the same \<open>await\<close>, its promise resolved;
  \<^item> \<open>AwaitRetryW\<close>: in \<^verbatim>\<open>result = await baseQuery(args, ...)\<close> of the \<open>else\<close>
    branch;
  \<^item> \<open>Finished\<close>: the function has returned, or thrown.
\<close>

datatype outcome = Returned QueryResult | Threw js_error

datatype pc =
    WaitUnlock0
  | ReadyOrig
  | AwaitOrig
  | Acquired QueryResult
  | AwaitRefresh QueryResult
  | AwaitRetryL
  | WaitUnlock1
  | ReadyRetry
  | AwaitRetryW
  | Finished outcome

text \<open>The endpoint a task serves: the \<open>logout\<close> mutation has an
  \<open>onQueryStarted\<close> that the coordinator's own dispatch sets going; the other
  endpoints are plain here.\<close>

datatype endpoint = Plain | Logout

record task =
  task_args :: FetchArgs
  task_pc :: pc
  task_endpoint :: endpoint

text \<open>Which \<open>baseQuery\<close> call of the function sent a request.\<close>

datatype purpose = Original | Refresh | Retry

record world =
  api_key :: string
  storage :: storage
  locked :: bool
  tasks :: "task list"
  sent :: "(nat \<times> purpose \<times> http_request) list"
  effects :: "effect list"
  cache :: cache

definition init :: "string \<Rightarrow> storage \<Rightarrow> cache \<Rightarrow> world" where
  "init k s c =
     \<lparr>api_key = k, storage = s, locked = False, tasks = [], sent = [], effects = [],
      cache = c\<rparr>"

definition pc_of :: "world \<Rightarrow> nat \<Rightarrow> pc" where
  "pc_of w i = task_pc (tasks w ! i)"

definition set_pc :: "nat \<Rightarrow> pc \<Rightarrow> world \<Rightarrow> world" where
  "set_pc i p w = w\<lparr>tasks := (tasks w)[i := (tasks w ! i)\<lparr>task_pc := p\<rparr>]\<rparr>"

definition send :: "nat \<Rightarrow> purpose \<Rightarrow> FetchArgs \<Rightarrow> world \<Rightarrow> world" where
  "send i q args w =
     w\<lparr>sent := sent w @ [(i, q, baseQuery_request (api_key w) (storage w) args)]\<rparr>"

text \<open>
  The mutex of \<open>async-mutex\<close>. The function calls \<open>acquire\<close> only after
  \<open>isLocked()\<close> has answered \<open>false\<close> in the same run, so nothing ever queues for
  the lock: the mutex is a flag. \<open>release()\<close> clears it and resolves the promise of
  every pending \<open>waitForUnlock()\<close>.
\<close>

definition wake :: "task \<Rightarrow> task" where
  "wake t =
     (case task_pc t of
        WaitUnlock0 \<Rightarrow> t\<lparr>task_pc := ReadyOrig\<rparr>
      | WaitUnlock1 \<Rightarrow> t\<lparr>task_pc := ReadyRetry\<rparr>
      | _ \<Rightarrow> t)"

definition release :: "world \<Rightarrow> world" where
  "release w = w\<lparr>locked := False, tasks := map wake (tasks w)\<rparr>"

text \<open>A call of \<open>baseQueryWithReauth\<close>: it runs up to
  \<^verbatim>\<open>await mutex.waitForUnlock()\<close>, whose promise is pending when the mutex is
  locked.\<close>

definition spawn :: "endpoint \<Rightarrow> FetchArgs \<Rightarrow> world \<Rightarrow> world" where
  "spawn ep args w =
     w\<lparr>tasks := tasks w @
        [\<lparr>task_args = args,
          task_pc = (if locked w then WaitUnlock0 else ReadyOrig),
          task_endpoint = ep\<rparr>]\<rparr>"

text \<open>\<^verbatim>\<open>api.dispatch(baseApi.endpoints.logout.initiate())\<close>: the mutation builds its
  request from the store and calls the coordinator.\<close>

definition dispatch_logout :: "world \<Rightarrow> world" where
  "dispatch_logout w = spawn Logout (logout_args (storage w)) w"

text \<open>
  \<open>onQueryStarted\<close> of \<open>logout\<close>:
  \<^verbatim>\<open>await queryFulfilled
  localStorage.removeItem(AUTH_KEYS.accessToken)
  localStorage.removeItem(AUTH_KEYS.refreshToken)
  dispatch(baseApi.util.resetApiState())\<close>
  \<open>queryFulfilled\<close> resolves when the request ends with \<open>{ data }\<close> and rejects
  otherwise; a rejection leaves the function at the \<open>await\<close>.
\<close>

definition resetApiState :: "world \<Rightarrow> world" where
  "resetApiState w = w\<lparr>cache := []\<rparr>"

definition logout_onQueryStarted :: "outcome \<Rightarrow> world \<Rightarrow> world" where
  "logout_onQueryStarted out w =
     (case out of
        Returned (Data d) \<Rightarrow>
          resetApiState
            (w\<lparr>storage :=
                 removeItem (removeItem (storage w) AUTH_KEYS_accessToken)
                   AUTH_KEYS_refreshToken\<rparr>)
      | _ \<Rightarrow> w)"

definition settle :: "nat \<Rightarrow> outcome \<Rightarrow> world \<Rightarrow> world" where
  "settle i out w =
     (case task_endpoint (tasks w ! i) of
        Plain \<Rightarrow> set_pc i (Finished out) w
      | Logout \<Rightarrow> logout_onQueryStarted out (set_pc i (Finished out) w))"

text \<open>
  The end of the function:
  \<^verbatim>\<open>if (result.error && result.error.status !== 401) { handleErrors(result.error) }
  return result\<close>
\<close>

definition finish :: "nat \<Rightarrow> QueryResult \<Rightarrow> world \<Rightarrow> world" where
  "finish i result w =
     (case result of
        Data d \<Rightarrow> settle i (Returned result) w
      | Error e \<Rightarrow>
          (if is_401 result then settle i (Returned result) w
           else (case handleErrors_reauth e of
                   Inl x \<Rightarrow> settle i (Threw x) w
                 | Inr es \<Rightarrow> settle i (Returned result) (w\<lparr>effects := effects w @ es\<rparr>))))"

text \<open>
  \<^verbatim>\<open>localStorage.setItem(AUTH_KEYS.accessToken, refreshResult.data.accessToken)
  localStorage.setItem(AUTH_KEYS.refreshToken, refreshResult.data.refreshToken)\<close>
\<close>

definition store_tokens :: "json \<Rightarrow> world \<Rightarrow> world" where
  "store_tokens d w =
     w\<lparr>storage :=
         setItem (setItem (storage w) AUTH_KEYS_accessToken (js_get d ''accessToken''))
           AUTH_KEYS_refreshToken (js_get d ''refreshToken'')\<rparr>"

text \<open>\<^verbatim>\<open>refreshResult.data && isTokens(refreshResult.data)\<close>\<close>

definition refresh_succeeded :: "QueryResult \<Rightarrow> bool" where
  "refresh_succeeded refreshResult =
     (case refreshResult of Data d \<Rightarrow> truthy d \<and> isTokens d | Error e \<Rightarrow> False)"

definition refresh_data :: "QueryResult \<Rightarrow> json" where
  "refresh_data refreshResult = (case refreshResult of Data d \<Rightarrow> d | Error e \<Rightarrow> JNull)"

text \<open>A task whose pending promise is resolved runs on to its next \<open>await\<close>.\<close>

definition resume :: "nat \<Rightarrow> world \<Rightarrow> world option" where
  "resume i w =
     (case pc_of w i of
        ReadyOrig \<Rightarrow> Some (set_pc i AwaitOrig (send i Original (task_args (tasks w ! i)) w))
      | Acquired result \<Rightarrow>
          Some (set_pc i (AwaitRefresh result) (send i Refresh (refresh_args (storage w)) w))
      | ReadyRetry \<Rightarrow> Some (set_pc i AwaitRetryW (send i Retry (task_args (tasks w ! i)) w))
      | _ \<Rightarrow> None)"

text \<open>The answer \<open>r\<close> to the request a task waits for arrives, and the task runs on
  to its next \<open>await\<close> or to its end.\<close>

definition respond :: "nat \<Rightarrow> QueryResult \<Rightarrow> world \<Rightarrow> world option" where
  "respond i r w =
     (case pc_of w i of
        AwaitOrig \<Rightarrow>
          Some (if is_401 r then
                  (if \<not> locked w then set_pc i (Acquired r) (w\<lparr>locked := True\<rparr>)
                   else set_pc i WaitUnlock1 w)
                else finish i r w)
      | AwaitRefresh result \<Rightarrow>
          Some (if refresh_succeeded r then
                  set_pc i AwaitRetryL
                    (send i Retry (task_args (tasks w ! i)) (store_tokens (refresh_data r) w))
                else finish i result (release (dispatch_logout w)))
      | AwaitRetryL \<Rightarrow> Some (finish i r (release w))
      | AwaitRetryW \<Rightarrow> Some (finish i r w)
      | _ \<Rightarrow> None)"

text \<open>
  What can happen next: the application calls an endpoint or the logout mutation, a
  resolved promise lets a task run, a response arrives. Any order of these is a
  schedule; the event loop of the browser produces some of them.
\<close>

datatype event = Call FetchArgs | CallLogout | Resume nat | Respond nat QueryResult

definition step :: "event \<Rightarrow> world \<Rightarrow> world option" where
  "step ev w =
     (case ev of
        Call args \<Rightarrow> Some (spawn Plain args w)
      | CallLogout \<Rightarrow> Some (dispatch_logout w)
      | Resume i \<Rightarrow> (if i < length (tasks w) then resume i w else None)
      | Respond i r \<Rightarrow> (if i < length (tasks w) then respond i r w else None))"

fun run :: "event list \<Rightarrow> world \<Rightarrow> world option" where
  "run [] w = Some w"
| "run (ev # evs) w = (case step ev w of None \<Rightarrow> None | Some w' \<Rightarrow> run evs w')"

section \<open>Optimistic update of the cache\<close>

text \<open>
  \<open>playlistsApi.ts\<close>, the recipe that \<open>updatePlaylist.onQueryStarted\<close> hands to
  \<open>updateQueryData\<close>:
  \<^verbatim>\<open>const index = state.data.findIndex((playlist) => playlist.id === playlistId)
  if (index !== -1) {
    state.data[index].attributes = { ...state.data[index].attributes, ...body }
  }\<close>
\<close>

fun findIndex :: "('a \<Rightarrow> bool) \<Rightarrow> 'a list \<Rightarrow> int" where
  "findIndex P [] = - 1"
| "findIndex P (x # xs) =
     (if P x then 0 else (let i = findIndex P xs in if i = - 1 then - 1 else i + 1))"

text \<open>\<open>{ ...a, ...b }\<close>: the properties of \<open>a\<close>, those of \<open>b\<close> written over them
  in turn.\<close>

definition spread :: "(string \<times> json) list \<Rightarrow> (string \<times> json) list \<Rightarrow> (string \<times> json) list" where
  "spread a b = foldl (\<lambda>acc kv. AList.update (fst kv) (snd kv) acc) a b"

definition updateRecipe ::
  "string \<Rightarrow> (string \<times> json) list \<Rightarrow> PlaylistsResponse \<Rightarrow> PlaylistsResponse" where
  "updateRecipe playlistId body state =
     (let index = findIndex (\<lambda>playlist. playlist_id playlist = playlistId) (data state) in
      if index \<noteq> - 1 then
        state\<lparr>data := (data state)
          [nat index := (data state ! nat index)
             \<lparr>attributes := spread (attributes (data state ! nat index)) body\<rparr>]\<rparr>
      else state)"

text \<open>
  Modelled from the spec: \<open>updateQueryData\<close>, the \<open>undo\<close> of the patch result it
  returns and \<open>selectCachedArgsForQuery\<close> belong to the query library, which is not
  part of the source. The specification gives them as
  \<^item> \<open>patch(key, mutateFn) -> UndoToken\<close>: applies \<open>mutateFn\<close> to the entry's data
    in place, returns a token capable of restoring the pre-patch snapshot;
  \<^item> \<open>undo(UndoToken) -> void\<close>: restores the snapshot captured at patch time;
  \<^item> the token is a \<open>PendingMutationPatch\<close>
    \<open>{ key, previousSnapshot, applied }\<close>.
  A patch of a key the cache does not hold applies nothing, and its undo restores
  nothing.
\<close>

record PendingMutationPatch =
  patch_key :: FetchPlaylistsArgs
  previousSnapshot :: "PlaylistsResponse option"
  applied :: bool

definition patch ::
  "FetchPlaylistsArgs \<Rightarrow> (PlaylistsResponse \<Rightarrow> PlaylistsResponse) \<Rightarrow> cache \<Rightarrow>
     cache \<times> PendingMutationPatch" where
  "patch key mutateFn c =
     (case map_of c key of
        None \<Rightarrow> (c, \<lparr>patch_key = key, previousSnapshot = None, applied = False\<rparr>)
      | Some d \<Rightarrow>
          (AList.update key (mutateFn d) c,
           \<lparr>patch_key = key, previousSnapshot = Some d, applied = True\<rparr>))"

definition undo :: "PendingMutationPatch \<Rightarrow> cache \<Rightarrow> cache" where
  "undo t c =
     (case previousSnapshot t of
        None \<Rightarrow> c
      | Some d \<Rightarrow> (if applied t then AList.update (patch_key t) d c else c))"

definition selectCachedArgsForQuery :: "cache \<Rightarrow> FetchPlaylistsArgs list" where
  "selectCachedArgsForQuery c = map fst c"

text \<open>
  \<open>updatePlaylist.onQueryStarted\<close>, in the version that patches every cached set
  of arguments. The key it patches is rebuilt from three fields of the cached
  arguments:
  \<^verbatim>\<open>{ pageNumber: arg.pageNumber, pageSize: arg.pageSize, search: arg.search }\<close>
\<close>

definition rebuilt_key :: "FetchPlaylistsArgs \<Rightarrow> FetchPlaylistsArgs" where
  "rebuilt_key arg =
     \<lparr>pageNumber = pageNumber arg, pageSize = pageSize arg, search = search arg,
      other_args = []\<rparr>"

text \<open>\<^verbatim>\<open>args.forEach((arg) => { patchResults.push(dispatch(updateQueryData(...))) })\<close>\<close>

fun patch_each ::
  "string \<Rightarrow> (string \<times> json) list \<Rightarrow> FetchPlaylistsArgs list \<Rightarrow> cache \<Rightarrow>
     cache \<times> PendingMutationPatch list" where
  "patch_each playlistId body [] c = (c, [])"
| "patch_each playlistId body (arg # args) c =
     (case patch (rebuilt_key arg) (updateRecipe playlistId body) c of
        (c1, t) \<Rightarrow>
          (case patch_each playlistId body args c1 of (c2, ts) \<Rightarrow> (c2, t # ts)))"

text \<open>\<^verbatim>\<open>patchResults.forEach((patchResult) => { patchResult.undo() })\<close>\<close>

fun undo_each :: "PendingMutationPatch list \<Rightarrow> cache \<Rightarrow> cache" where
  "undo_each [] c = c"
| "undo_each (t # ts) c = undo_each ts (undo t c)"

text \<open>\<^verbatim>\<open>try { await queryFulfilled } catch { patchResults.forEach(...) }\<close>: the
  argument \<open>fulfilled\<close> says whether the confirming request succeeded.\<close>

definition updatePlaylist_onQueryStarted ::
  "string \<Rightarrow> (string \<times> json) list \<Rightarrow> bool \<Rightarrow> cache \<Rightarrow> cache" where
  "updatePlaylist_onQueryStarted playlistId body fulfilled c =
     (case patch_each playlistId body (selectCachedArgsForQuery c) c of
        (c', patchResults) \<Rightarrow> (if fulfilled then c' else undo_each patchResults c'))"

section \<open>The error taxonomy of the specification\<close>





section \<open>Observing a run\<close>

text \<open>How many requests a task has sent from one of the three \<open>baseQuery\<close> calls
  of the function.\<close>

definition sends :: "world \<Rightarrow> nat \<Rightarrow> purpose \<Rightarrow> nat" where
  "sends w i q = length (filter (\<lambda>e. fst e = i \<and> fst (snd e) = q) (sent w))"

text \<open>A task holds the mutex from \<open>acquire\<close> to \<open>release\<close>.\<close>

fun holds_lock :: "pc \<Rightarrow> bool" where
  "holds_lock (Acquired r) = True"
| "holds_lock (AwaitRefresh r) = True"
| "holds_lock AwaitRetryL = True"
| "holds_lock p = False"

fun finished :: "pc \<Rightarrow> bool" where
  "finished (Finished out) = True"
| "finished p = False"

text \<open>The requests a task at a given place has sent: \<open>n\<^sub>o\<close> original ones,
  \<open>n\<^sub>f\<close> to the refresh endpoint, \<open>n\<^sub>t\<close> retries.\<close>

fun sent_so_far :: "pc \<Rightarrow> nat \<Rightarrow> nat \<Rightarrow> nat \<Rightarrow> bool" where
  "sent_so_far WaitUnlock0 no nf nt = (no = 0 \<and> nf = 0 \<and> nt = 0)"
| "sent_so_far ReadyOrig no nf nt = (no = 0 \<and> nf = 0 \<and> nt = 0)"
| "sent_so_far AwaitOrig no nf nt = (no = 1 \<and> nf = 0 \<and> nt = 0)"
| "sent_so_far (Acquired r) no nf nt = (no = 1 \<and> nf = 0 \<and> nt = 0)"
| "sent_so_far (AwaitRefresh r) no nf nt = (no = 1 \<and> nf = 1 \<and> nt = 0)"
| "sent_so_far AwaitRetryL no nf nt = (no = 1 \<and> nf = 1 \<and> nt = 1)"
| "sent_so_far WaitUnlock1 no nf nt = (no = 1 \<and> nf = 0 \<and> nt = 0)"
| "sent_so_far ReadyRetry no nf nt = (no = 1 \<and> nf = 0 \<and> nt = 0)"
| "sent_so_far AwaitRetryW no nf nt = (no = 1 \<and> nf = 0 \<and> nt = 1)"
| "sent_so_far (Finished out) no nf nt = (no = 1 \<and> nf \<le> 1 \<and> nt \<le> 1)"

definition counted :: "world \<Rightarrow> bool" where
  "counted w =
     (list_all (\<lambda>e. fst e < length (tasks w)) (sent w) \<and>
      list_all (\<lambda>i. sent_so_far (pc_of w i)
                  (sends w i Original) (sends w i Refresh) (sends w i Retry))
        [0 ..< length (tasks w)])"

section \<open>Requests that are refused together\<close>






text \<open>The number of \<open>await\<close>s a task can still have before it, at most; and the
  sum of these over the tasks \<open>0, ..., N - 1\<close>.\<close>

fun rank :: "pc \<Rightarrow> nat" where
  "rank WaitUnlock0 = 6"
| "rank ReadyOrig = 5"
| "rank AwaitOrig = 4"
| "rank (Acquired r) = 3"
| "rank (AwaitRefresh r) = 2"
| "rank AwaitRetryL = 1"
| "rank WaitUnlock1 = 3"
| "rank ReadyRetry = 2"
| "rank AwaitRetryW = 1"
| "rank (Finished out) = 0"


section \<open>Invariants of a run\<close>


fun wake_pc :: "pc \<Rightarrow> pc" where
  "wake_pc WaitUnlock0 = ReadyOrig"
| "wake_pc WaitUnlock1 = ReadyRetry"
| "wake_pc p = p"

fun moves :: "bool \<Rightarrow> pc \<Rightarrow> pc \<Rightarrow> bool" where
  "moves lk ReadyOrig p' = (p' = AwaitOrig)"
| "moves lk (Acquired x) p' = (p' = AwaitRefresh x)"
| "moves lk ReadyRetry p' = (p' = AwaitRetryW)"
| "moves lk AwaitOrig p' =
     (case p' of Acquired r \<Rightarrow> \<not> lk | WaitUnlock1 \<Rightarrow> lk | Finished out \<Rightarrow> True | _ \<Rightarrow> False)"
| "moves lk (AwaitRefresh x) p' = (p' = AwaitRetryL \<or> finished p')"
| "moves lk AwaitRetryL p' = finished p'"
| "moves lk AwaitRetryW p' = finished p'"
| "moves lk WaitUnlock0 p' = False"
| "moves lk WaitUnlock1 p' = False"
| "moves lk (Finished out) p' = False"



text \<open>
  After the burst, task \<open>l\<close> is the one that refreshes. Either it still holds the
  mutex, nobody else does, and the other tasks of the \<open>N\<close> wait for it; or it has
  finished, having sent one refresh request, and the others have been let through.
  None of the others has sent a refresh request.
\<close>

fun after_wait :: "pc \<Rightarrow> bool" where
  "after_wait ReadyRetry = True"
| "after_wait AwaitRetryW = True"
| "after_wait (Finished out) = True"
| "after_wait p = False"




section \<open>Example worlds\<close>

text \<open>A store after login, two requests, a body that names the refresh token, and
  a world in which task 0 waits for the answer to its refresh request while task 1
  waits for the mutex, task 2 is a logout request in flight, and tasks 3 and 4 have
  waited for an earlier refresh.\<close>

definition example_store :: storage where
  "example_store = [AUTH_KEYS_accessToken \<mapsto> ''A1'', AUTH_KEYS_refreshToken \<mapsto> ''R1'']"

definition playlists_args :: FetchArgs where
  "playlists_args = \<lparr>url = ''playlists'', http_method = ''get'', http_body = None\<rparr>"

definition me_args :: FetchArgs where
  "me_args = \<lparr>url = ''auth/me'', http_method = ''get'', http_body = None\<rparr>"

definition unauthorized :: QueryResult where
  "unauthorized = Error (HttpError 401 (JObj [(''message'', JStr ''Unauthorized'')]))"

definition refreshToken_body :: json where
  "refreshToken_body =
     JObj [(''errors'', JArr [JObj [(''detail'',
       JStr ''refreshToken must be a string; Received value: null'')]])]"

definition title_body :: json where
  "title_body = JObj [(''errors'', JArr [JObj [(''detail'', JStr ''title is too long'')]])]"

definition fresh_tokens :: json where
  "fresh_tokens = JObj [(''accessToken'', JStr ''A2''), (''refreshToken'', JStr ''R2'')]"


definition example_world :: world where
  "example_world =
     \<lparr>api_key = ''k'', storage = example_store, locked = True,
      tasks =
        [\<lparr>task_args = playlists_args, task_pc = AwaitRefresh unauthorized, task_endpoint = Plain\<rparr>,
         \<lparr>task_args = me_args, task_pc = WaitUnlock1, task_endpoint = Plain\<rparr>,
         \<lparr>task_args = logout_args example_store, task_pc = AwaitOrig, task_endpoint = Logout\<rparr>,
         \<lparr>task_args = me_args, task_pc = ReadyRetry, task_endpoint = Plain\<rparr>,
         \<lparr>task_args = me_args, task_pc = AwaitRetryW, task_endpoint = Plain\<rparr>],
      sent = [], effects = [], cache = []\<rparr>"

text \<open>A cache that holds two pages of playlists, and an update of a title.\<close>

definition page :: "nat \<Rightarrow> FetchPlaylistsArgs" where
  "page n = \<lparr>pageNumber = Some n, pageSize = Some 2, search = Some [], other_args = []\<rparr>"


text \<open>A cache with two entries whose arguments differ in \<open>userId\<close> only.\<close>

definition shared_key_cache :: cache where
  "shared_key_cache =
     [(page 1,
       \<lparr>data = [\<lparr>playlist_id = ''p1'', attributes = [(''title'', JStr ''Rock'')]\<rparr>],
        meta = JNull\<rparr>),
      ((page 1)\<lparr>other_args := [(''userId'', JStr ''u1'')]\<rparr>,
       \<lparr>data = [\<lparr>playlist_id = ''p1'', attributes = [(''title'', JStr ''Rock'')]\<rparr>],
        meta = JNull\<rparr>)]"

definition example_update :: "(string \<times> json) list" where
  "example_update = [(''title'', JStr ''Hard rock''), (''tagIds'', JArr [])]"

section \<open>What the handlers show\<close>

lemma errorToast_None [simp]: "errorToast m None = [Toast m]"
  by (simp add: errorToast_def)

lemma shown_errorToast [simp]: "shown (errorToast m e) = [m]"
  by (cases e) (simp_all add: errorToast_def)

lemma length_trimToMaxLength: "length (trimToMaxLength str 100) \<le> 100"
  by (simp add: trimToMaxLength_def slice0_def)

lemma trimToMaxLength_short: "length str \<le> 100 \<Longrightarrow> trimToMaxLength str 100 = str"
  by (simp add: trimToMaxLength_def)

lemma trimToMaxLength_long:
  "length str > 100 \<Longrightarrow> trimToMaxLength str 100 = take 97 str @ ''...''"
  by (simp add: trimToMaxLength_def slice0_def)

text \<open>When the guard answers \<open>true\<close>, the detail the handlers read is a string.\<close>

lemma guard_true_first_detail:
  "isErrorWithDetailArray d = Inr True \<Longrightarrow> \<exists>m. first_detail d = Some m"
proof -
  assume g: "isErrorWithDetailArray d = Inr True"
  then obtain xs where xs: "js_get d ''errors'' = Some (JArr xs)" "xs \<noteq> []"
    and m: "js_member (xs ! 0) ''detail'' \<noteq> Inl TypeError"
      "\<And>v. js_member (xs ! 0) ''detail'' = Inr v \<Longrightarrow> js_typeof v = ''string''"
    by (auto simp: isErrorWithDetailArray_def
        split: if_splits option.splits json.splits sum.splits)
  from xs obtain e es where e: "xs = e # es" by (cases xs) auto
  have "js_typeof (js_get e ''detail'') = ''string''"
    using m e by (cases e) auto
  then obtain t where "js_get e ''detail'' = Some (JStr t)"
    by (cases "js_get e ''detail''"; simp) (rename_tac v, case_tac v; simp)
  then show ?thesis using xs e by (simp add: first_detail_def)
qed


lemma detail_case_shape:
  "isErrorWithDetailArray b = Inr True \<Longrightarrow> first_detail b = Some m \<Longrightarrow>
     detail_case b = Inr [Toast (trimToMaxLength m 100)]"
  by (simp add: detail_case_def)

lemma detail_case_other:
  "isErrorWithDetailArray b = Inr False \<Longrightarrow> detail_case b = Inr [Toast (JSON_stringify b)]"
  by (simp add: detail_case_def)




text \<open>
  C6, at the input where the code departs from it: the body
  \<open>{"errors": [null]}\<close> does not have the error-array shape, and the claim has the
  serialized body shown for it; the guard reads \<open>detail\<close> of \<open>null\<close> and throws, so
  \<open>handleErrors\<close> shows nothing, for 400 as for 403.
\<close>

theorem null_detail_element_throws:
  "isErrorWithDetailArray (JObj [(''errors'', JArr [JNull])]) = Inl TypeError
   \<and> handleErrors (HttpError 400 (JObj [(''errors'', JArr [JNull])])) = Inl TypeError
   \<and> handleErrors (HttpError 403 (JObj [(''errors'', JArr [JNull])])) = Inl TypeError"
  by (simp add: isErrorWithDetailArray_def detail_case_def)

text \<open>
  C8: for every status from 500 to 599 the message shown is the fixed text
  \<open>Server error occurred. Please try again later.\<close>, whatever the body; two server
  faults with different bodies show the same message. The body reaches the console
  only. This holds for \<open>handleErrors\<close> in both lessons.
\<close>

theorem server_fault_message_fixed:
  assumes "500 \<le> s" "s < 600" "500 \<le> s'" "s' < 600"
  shows "handleErrors (HttpError s d) =
           Inr [Toast ''Server error occurred. Please try again later.'',
                ConsoleError (''Server error occurred. Please try again later.'' @ [CHR 0x0A])
                  (HttpError s d)]
       \<and> map_sum id shown (handleErrors (HttpError s d)) =
           Inr [''Server error occurred. Please try again later.'']
       \<and> map_sum id shown (handleErrors (HttpError s d)) =
           map_sum id shown (handleErrors (HttpError s' d'))
       \<and> map_sum id shown (handleErrors_reauth (HttpError s d)) =
           Inr [''Server error occurred. Please try again later.'']
       \<and> map_sum id shown (handleErrors_reauth (HttpError s d)) =
           map_sum id shown (handleErrors_reauth (HttpError s' d'))"
  using assms by (simp add: default_case_def errorToast_def)

theorem server_fault_message_fixed_witness:
  "handleErrors (HttpError 500 (JStr ''stack trace'')) =
           Inr [Toast ''Server error occurred. Please try again later.'',
                ConsoleError (''Server error occurred. Please try again later.'' @ [CHR 0x0A])
                  (HttpError 500 (JStr ''stack trace''))]
       \<and> map_sum id shown (handleErrors (HttpError 500 (JStr ''stack trace''))) =
           Inr [''Server error occurred. Please try again later.'']
       \<and> map_sum id shown (handleErrors (HttpError 500 (JStr ''stack trace''))) =
           map_sum id shown (handleErrors (HttpError 503 JNull))
       \<and> map_sum id shown (handleErrors_reauth (HttpError 500 (JStr ''stack trace''))) =
           Inr [''Server error occurred. Please try again later.'']
       \<and> map_sum id shown (handleErrors_reauth (HttpError 500 (JStr ''stack trace''))) =
           map_sum id shown (handleErrors_reauth (HttpError 503 JNull))"
  using server_fault_message_fixed [of 500 503 "JStr ''stack trace''" JNull]
  by (simp add: default_case_def errorToast_def)

section \<open>The Authorization header\<close>


section \<open>Fields after each operation\<close>

lemma set_pc_fields [simp]:
  "tasks (set_pc i p w) = (tasks w)[i := (tasks w ! i)\<lparr>task_pc := p\<rparr>]"
  "sent (set_pc i p w) = sent w" "storage (set_pc i p w) = storage w"
  "locked (set_pc i p w) = locked w" "effects (set_pc i p w) = effects w"
  "cache (set_pc i p w) = cache w" "api_key (set_pc i p w) = api_key w"
  by (simp_all add: set_pc_def)

lemma send_fields [simp]:
  "tasks (send i q a w) = tasks w"
  "sent (send i q a w) = sent w @ [(i, q, baseQuery_request (api_key w) (storage w) a)]"
  "storage (send i q a w) = storage w"
  "locked (send i q a w) = locked w" "effects (send i q a w) = effects w"
  "cache (send i q a w) = cache w" "api_key (send i q a w) = api_key w"
  by (simp_all add: send_def)

lemma release_fields [simp]:
  "tasks (release w) = map wake (tasks w)"
  "sent (release w) = sent w" "storage (release w) = storage w"
  "locked (release w) = False" "effects (release w) = effects w"
  "cache (release w) = cache w" "api_key (release w) = api_key w"
  by (simp_all add: release_def)

lemma spawn_fields [simp]:
  "tasks (spawn ep a w) = tasks w @
     [\<lparr>task_args = a, task_pc = (if locked w then WaitUnlock0 else ReadyOrig), task_endpoint = ep\<rparr>]"
  "sent (spawn ep a w) = sent w" "storage (spawn ep a w) = storage w"
  "locked (spawn ep a w) = locked w" "effects (spawn ep a w) = effects w"
  "cache (spawn ep a w) = cache w" "api_key (spawn ep a w) = api_key w"
  by (simp_all add: spawn_def)

lemma store_tokens_fields [simp]:
  "tasks (store_tokens d w) = tasks w"
  "sent (store_tokens d w) = sent w"
  "storage (store_tokens d w) =
     setItem (setItem (storage w) AUTH_KEYS_accessToken (js_get d ''accessToken''))
       AUTH_KEYS_refreshToken (js_get d ''refreshToken'')"
  "locked (store_tokens d w) = locked w" "effects (store_tokens d w) = effects w"
  "cache (store_tokens d w) = cache w" "api_key (store_tokens d w) = api_key w"
  by (simp_all add: store_tokens_def)

lemma logout_onQueryStarted_fields [simp]:
  "tasks (logout_onQueryStarted out w) = tasks w"
  "sent (logout_onQueryStarted out w) = sent w"
  "locked (logout_onQueryStarted out w) = locked w"
  "effects (logout_onQueryStarted out w) = effects w"
  "api_key (logout_onQueryStarted out w) = api_key w"
  by (simp_all add: logout_onQueryStarted_def resetApiState_def
      split: outcome.splits QueryResult.splits)

lemma settle_fields [simp]:
  "tasks (settle i out w) = (tasks w)[i := (tasks w ! i)\<lparr>task_pc := Finished out\<rparr>]"
  "sent (settle i out w) = sent w"
  "locked (settle i out w) = locked w"
  "effects (settle i out w) = effects w"
  "api_key (settle i out w) = api_key w"
  by (simp_all add: settle_def split: endpoint.splits)

lemma finish_tasks:
  "\<exists>out. tasks (finish i r w) = (tasks w)[i := (tasks w ! i)\<lparr>task_pc := Finished out\<rparr>]
     \<and> (is_401 r \<or> (\<exists>d. r = Data d) \<longrightarrow> out = Returned r)"
  by (cases r) (auto simp: finish_def split: sum.splits)

lemma finish_fields [simp]:
  "sent (finish i r w) = sent w" "locked (finish i r w) = locked w"
  "api_key (finish i r w) = api_key w" "length (tasks (finish i r w)) = length (tasks w)"
  by (cases r; simp add: finish_def split: sum.splits)+

lemma finish_401:
  "is_401 r \<Longrightarrow> finish i r w = settle i (Returned r) w"
  by (cases r) (auto simp: finish_def is_401_def)







section \<open>Requests sent by a call\<close>

lemma counted_iff:
  "counted w \<longleftrightarrow>
     (\<forall>e \<in> set (sent w). fst e < length (tasks w)) \<and>
     (\<forall>i < length (tasks w). sent_so_far (pc_of w i)
         (sends w i Original) (sends w i Refresh) (sends w i Retry))"
  by (auto simp: counted_def list_all_iff)

lemma sends_fresh:
  "\<forall>e \<in> set (sent w). fst e < n \<Longrightarrow> n \<le> i \<Longrightarrow> sends w i q = 0"
  by (auto simp: sends_def filter_empty_conv)

lemma sends_send [simp]:
  "sends (send i q a w) j q' = sends w j q' + (if j = i \<and> q' = q then 1 else 0)"
  by (simp add: sends_def)

lemma sends_cong: "sent w' = sent w \<Longrightarrow> sends w' j q = sends w j q"
  by (simp add: sends_def)

lemma sends_simps [simp]:
  "sends (set_pc i p w) j q = sends w j q"
  "sends (release w) j q = sends w j q"
  "sends (spawn ep a w) j q = sends w j q"
  "sends (dispatch_logout w) j q = sends w j q"
  "sends (store_tokens d w) j q = sends w j q"
  "sends (settle i out w) j q = sends w j q"
  "sends (finish i r w) j q = sends w j q"
  "sends (w\<lparr>locked := b\<rparr>) j q = sends w j q"
  by (simp_all add: sends_def dispatch_logout_def)

lemma sent_so_far_wake:
  "sent_so_far (task_pc (wake t)) a b c = sent_so_far (task_pc t) a b c"
  by (cases "task_pc t") (simp_all add: wake_def)

lemma pc_of_simps [simp]:
  "j < length (tasks w) \<Longrightarrow> pc_of (set_pc i p w) j = (if j = i then p else pc_of w j)"
  "j < length (tasks w) \<Longrightarrow> pc_of (release w) j = task_pc (wake (tasks w ! j))"
  "j < length (tasks w) \<Longrightarrow> pc_of (spawn ep a w) j = pc_of w j"
  "pc_of (spawn ep a w) (length (tasks w)) = (if locked w then WaitUnlock0 else ReadyOrig)"
  "pc_of (send i q a w) j = pc_of w j"
  "pc_of (store_tokens d w) j = pc_of w j"
  "j < length (tasks w) \<Longrightarrow> pc_of (settle i out w) j = (if j = i then Finished out else pc_of w j)"
  "pc_of (w\<lparr>locked := b\<rparr>) j = pc_of w j"
  by (simp_all add: pc_of_def nth_append)

lemma length_tasks_simps [simp]:
  "length (tasks (dispatch_logout w)) = Suc (length (tasks w))"
  by (simp add: dispatch_logout_def)

lemma pc_of_dispatch_logout [simp]:
  "j < length (tasks w) \<Longrightarrow> pc_of (dispatch_logout w) j = pc_of w j"
  "pc_of (dispatch_logout w) (length (tasks w)) = (if locked w then WaitUnlock0 else ReadyOrig)"
  by (simp_all add: dispatch_logout_def)

lemma dispatch_logout_fields [simp]:
  "sent (dispatch_logout w) = sent w" "storage (dispatch_logout w) = storage w"
  "locked (dispatch_logout w) = locked w" "effects (dispatch_logout w) = effects w"
  "cache (dispatch_logout w) = cache w" "api_key (dispatch_logout w) = api_key w"
  by (simp_all add: dispatch_logout_def)


lemma counted_task:
  "counted w \<Longrightarrow> i < length (tasks w) \<Longrightarrow>
     sent_so_far (pc_of w i) (sends w i Original) (sends w i Refresh) (sends w i Retry)"
  by (simp add: counted_iff)

lemma counted_sent: "counted w \<Longrightarrow> e \<in> set (sent w) \<Longrightarrow> fst e < length (tasks w)"
  by (simp add: counted_iff)

lemma countedI:
  assumes "\<And>e. e \<in> set (sent w) \<Longrightarrow> fst e < length (tasks w)"
    and "\<And>i. i < length (tasks w) \<Longrightarrow>
      sent_so_far (pc_of w i) (sends w i Original) (sends w i Refresh) (sends w i Retry)"
  shows "counted w"
  using assms by (simp add: counted_iff)

lemma counted_spawn:
  assumes "counted w" shows "counted (spawn ep a w)"
proof (rule countedI)
  fix e assume "e \<in> set (sent (spawn ep a w))"
  then show "fst e < length (tasks (spawn ep a w))"
    using counted_sent [OF assms, of e] by simp
next
  fix i assume i: "i < length (tasks (spawn ep a w))"
  show "sent_so_far (pc_of (spawn ep a w) i) (sends (spawn ep a w) i Original)
          (sends (spawn ep a w) i Refresh) (sends (spawn ep a w) i Retry)"
  proof (cases "i < length (tasks w)")
    case True
    then show ?thesis using counted_task [OF assms True] by simp
  next
    case False
    then have eq: "i = length (tasks w)" using i by simp
    have "sends w i q = 0" for q
      using assms eq by (intro sends_fresh [where n = "length (tasks w)"]) (auto simp: counted_iff)
    then show ?thesis by (simp add: eq)
  qed
qed

lemma counted_dispatch_logout: "counted w \<Longrightarrow> counted (dispatch_logout w)"
  by (simp add: dispatch_logout_def counted_spawn)

lemma counted_resume:
  assumes c: "counted w" and i: "i < length (tasks w)" and r: "resume i w = Some w'"
  shows "counted w'"
proof (rule countedI)
  fix e assume "e \<in> set (sent w')"
  then show "fst e < length (tasks w')"
    using r i counted_sent [OF c, of e]
    by (auto simp: resume_def split: pc.splits)
next
  fix j assume j: "j < length (tasks w')"
  then have j': "j < length (tasks w)"
    using r by (auto simp: resume_def split: pc.splits)
  show "sent_so_far (pc_of w' j) (sends w' j Original) (sends w' j Refresh) (sends w' j Retry)"
    using r i j' counted_task [OF c j'] counted_task [OF c i]
    by (auto simp: resume_def split: pc.splits)
qed

lemma counted_release: "counted w \<Longrightarrow> counted (release w)"
  by (auto simp: counted_iff sent_so_far_wake pc_of_def)

lemma counted_finish:
  assumes c: "counted w" and i: "i < length (tasks w)"
    and p: "sends w i Original = 1 \<and> sends w i Refresh \<le> 1 \<and> sends w i Retry \<le> 1"
  shows "counted (finish i r w)"
proof (rule countedI)
  fix e assume "e \<in> set (sent (finish i r w))"
  then show "fst e < length (tasks (finish i r w))"
    using counted_sent [OF c, of e] by simp
next
  fix j assume "j < length (tasks (finish i r w))"
  then have j: "j < length (tasks w)" by simp
  obtain out where out: "tasks (finish i r w) = (tasks w)[i := (tasks w ! i)\<lparr>task_pc := Finished out\<rparr>]"
    using finish_tasks [of i r w] by blast
  show "sent_so_far (pc_of (finish i r w) j) (sends (finish i r w) j Original)
          (sends (finish i r w) j Refresh) (sends (finish i r w) j Retry)"
  proof (cases "j = i")
    case True
    then show ?thesis using p i out by (simp add: pc_of_def)
  next
    case False
    then show ?thesis using counted_task [OF c j] j out by (simp add: pc_of_def)
  qed
qed

lemma counted_locked [simp]: "counted (w\<lparr>locked := b\<rparr>) = counted w"
  by (simp add: counted_iff pc_of_def sends_def)

lemma counted_set_pc_same:
  assumes c: "counted w" and i: "i < length (tasks w)"
    and p: "sent_so_far p (sends w i Original) (sends w i Refresh) (sends w i Retry)"
  shows "counted (set_pc i p w)"
proof (rule countedI)
  fix e assume "e \<in> set (sent (set_pc i p w))"
  then show "fst e < length (tasks (set_pc i p w))"
    using counted_sent [OF c, of e] by simp
next
  fix j assume "j < length (tasks (set_pc i p w))"
  then have j: "j < length (tasks w)" by simp
  show "sent_so_far (pc_of (set_pc i p w) j) (sends (set_pc i p w) j Original)
          (sends (set_pc i p w) j Refresh) (sends (set_pc i p w) j Retry)"
    using counted_task [OF c j] j p by simp
qed

lemma sends_release_logout [simp]:
  "sends (release (dispatch_logout w)) j q = sends w j q"
  by (simp add: sends_def)

lemma counted_respond:
  assumes c: "counted w" and i: "i < length (tasks w)" and r: "respond i r w = Some w'"
  shows "counted w'"
proof (cases "pc_of w i")
  case AwaitOrig
  have s: "sends w i Original = 1 \<and> sends w i Refresh = 0 \<and> sends w i Retry = 0"
    using counted_task [OF c i] AwaitOrig by simp
  show ?thesis
    using r AwaitOrig c i s
    by (auto simp: respond_def intro!: counted_finish counted_set_pc_same)
next
  case (AwaitRefresh result)
  have s: "sends w i Original = 1 \<and> sends w i Refresh = 1 \<and> sends w i Retry = 0"
    using counted_task [OF c i] AwaitRefresh by simp
  show ?thesis
  proof (cases "refresh_succeeded r")
    case True
    have w': "w' = set_pc i AwaitRetryL
        (send i Retry (task_args (tasks w ! i)) (store_tokens (refresh_data r) w))"
      using r AwaitRefresh True by (simp add: respond_def)
    show ?thesis
    proof (rule countedI)
      fix e assume "e \<in> set (sent w')"
      then show "fst e < length (tasks w')"
        using counted_sent [OF c, of e] i by (auto simp: w')
    next
      fix j assume "j < length (tasks w')"
      then have j: "j < length (tasks w)" by (simp add: w')
      show "sent_so_far (pc_of w' j) (sends w' j Original) (sends w' j Refresh) (sends w' j Retry)"
        using counted_task [OF c j] j s by (simp add: w')
    qed
  next
    case False
    have w': "w' = finish i result (release (dispatch_logout w))"
      using r AwaitRefresh False by (simp add: respond_def)
    show ?thesis unfolding w'
      using s i by (intro counted_finish counted_release counted_dispatch_logout c) simp_all
  qed
next
  case AwaitRetryL
  have s: "sends w i Original = 1 \<and> sends w i Refresh = 1 \<and> sends w i Retry = 1"
    using counted_task [OF c i] AwaitRetryL by simp
  have w': "w' = finish i r (release w)"
    using r AwaitRetryL by (simp add: respond_def)
  show ?thesis unfolding w'
    using s i by (intro counted_finish counted_release c) simp_all
next
  case AwaitRetryW
  have s: "sends w i Original = 1 \<and> sends w i Refresh = 0 \<and> sends w i Retry = 1"
    using counted_task [OF c i] AwaitRetryW by simp
  have w': "w' = finish i r w"
    using r AwaitRetryW by (simp add: respond_def)
  show ?thesis unfolding w'
    using s i by (intro counted_finish c) simp_all
qed (use r in \<open>simp_all add: respond_def\<close>)

lemma counted_step: "counted w \<Longrightarrow> step ev w = Some w' \<Longrightarrow> counted w'"
  by (cases ev)
    (auto simp: step_def counted_spawn counted_dispatch_logout
      intro: counted_resume counted_respond split: if_splits)

lemma counted_run: "counted w \<Longrightarrow> run evs w = Some w' \<Longrightarrow> counted w'"
  by (induction evs arbitrary: w) (auto split: option.splits dest: counted_step)

lemma counted_init: "counted (init k s c)"
  by (simp add: counted_def init_def)

lemma sent_so_far_bound:
  "sent_so_far p a b t \<Longrightarrow> a \<le> 1 \<and> b \<le> 1 \<and> t \<le> 1"
  by (cases p) auto

lemma finished_terminal:
  "finished (pc_of w i) \<Longrightarrow> resume i w = None \<and> respond i r w = None"
  by (cases "pc_of w i") (simp_all add: resume_def respond_def)

lemma retry_scenario:
  assumes u: "\<not> locked w" and i: "i = length (tasks w)"
    and r1: "is_401 r1" and rr: "refresh_succeeded rr" and r2: "is_401 r2"
  shows "\<exists>w'. run [Call args, Resume i, Respond i r1, Resume i, Respond i rr, Respond i r2] w = Some w'
         \<and> pc_of w' i = Finished (Returned r2)
         \<and> (\<exists>rq1 rq2 rq3. sent w' = sent w @ [(i, Original, rq1), (i, Refresh, rq2), (i, Retry, rq3)]
               \<and> req_args rq1 = args \<and> req_args rq3 = args \<and> url (req_args rq2) = ''/auth/refresh'')
         \<and> effects w' = effects w"
proof -
  define w1 where "w1 = spawn Plain args w"
  define w2 where "w2 = set_pc i AwaitOrig (send i Original args w1)"
  define w3 where "w3 = set_pc i (Acquired r1) (w2\<lparr>locked := True\<rparr>)"
  define w4 where "w4 = set_pc i (AwaitRefresh r1) (send i Refresh (refresh_args (storage w3)) w3)"
  define w5 where "w5 = set_pc i AwaitRetryL (send i Retry args (store_tokens (refresh_data rr) w4))"
  define w6 where "w6 = finish i r2 (release w5)"
  have l1: "length (tasks w1) = Suc i" "pc_of w1 i = ReadyOrig" "task_args (tasks w1 ! i) = args"
    "task_endpoint (tasks w1 ! i) = Plain" "\<not> locked w1"
    using u by (simp_all add: w1_def i pc_of_def)
  have s1: "step (Call args) w = Some w1" by (simp add: step_def w1_def)
  have s2: "step (Resume i) w1 = Some w2"
    using l1 by (simp add: step_def resume_def w2_def)
  have l2: "length (tasks w2) = Suc i" "pc_of w2 i = AwaitOrig" "task_args (tasks w2 ! i) = args"
    "task_endpoint (tasks w2 ! i) = Plain" "\<not> locked w2"
    using l1 by (simp_all add: w2_def pc_of_def)
  have s3: "step (Respond i r1) w2 = Some w3"
    using l2 r1 by (simp add: step_def respond_def w3_def)
  have l3: "length (tasks w3) = Suc i" "pc_of w3 i = Acquired r1" "task_args (tasks w3 ! i) = args"
    "task_endpoint (tasks w3 ! i) = Plain"
    using l2 by (simp_all add: w3_def pc_of_def)
  have s4: "step (Resume i) w3 = Some w4"
    using l3 by (simp add: step_def resume_def w4_def)
  have l4: "length (tasks w4) = Suc i" "pc_of w4 i = AwaitRefresh r1" "task_args (tasks w4 ! i) = args"
    "task_endpoint (tasks w4 ! i) = Plain"
    using l3 by (simp_all add: w4_def pc_of_def)
  have s5: "step (Respond i rr) w4 = Some w5"
    using l4 rr by (simp add: step_def respond_def w5_def)
  have l5: "length (tasks w5) = Suc i" "pc_of w5 i = AwaitRetryL" "task_args (tasks w5 ! i) = args"
    "task_endpoint (tasks w5 ! i) = Plain"
    using l4 by (simp_all add: w5_def pc_of_def)
  have s6: "step (Respond i r2) w5 = Some w6"
    using l5 by (simp add: step_def respond_def w6_def)
  have e5: "task_endpoint (wake (tasks w5 ! i)) = Plain"
    using l5 by (simp add: wake_def pc_of_def)
  have w6: "w6 = set_pc i (Finished (Returned r2)) (release w5)"
    using l5 e5 by (simp add: w6_def finish_401 [OF r2] settle_def)
  have run: "run [Call args, Resume i, Respond i r1, Resume i, Respond i rr, Respond i r2] w = Some w6"
    by (simp add: s1 s2 s3 s4 s5 s6)
  have pc: "pc_of w6 i = Finished (Returned r2)"
    using l5 by (simp add: w6)
  have sent: "sent w6 = sent w @
      [(i, Original, baseQuery_request (api_key w) (storage w) args),
       (i, Refresh, baseQuery_request (api_key w) (storage w) (refresh_args (storage w))),
       (i, Retry, baseQuery_request (api_key w) (storage w5) args)]"
    by (simp add: w6 w5_def w4_def w3_def w2_def w1_def)
  have eff: "effects w6 = effects w"
    by (simp add: w6 w5_def w4_def w3_def w2_def w1_def)
  show ?thesis
    using run pc sent eff
    by (intro exI [of _ w6]) (simp add: baseQuery_request_def refresh_args_def)
qed

section \<open>A failed refresh\<close>

lemma settle_keeps_store:
  "(\<forall>d. out \<noteq> Returned (Data d)) \<or> task_endpoint (tasks w ! i) = Plain \<Longrightarrow>
     storage (settle i out w) = storage w \<and> cache (settle i out w) = cache w"
  by (auto simp: settle_def logout_onQueryStarted_def
      split: endpoint.splits outcome.splits QueryResult.splits)

lemma is_401_Error: "is_401 r \<Longrightarrow> \<exists>d. r = Error (HttpError 401 d)"
  by (auto simp: is_401_def split: QueryResult.splits FetchBaseQueryError.splits)

lemma refresh_failure_step:
  assumes i: "i < length (tasks w)" and p: "pc_of w i = AwaitRefresh result"
    and r: "is_401 result" and f: "\<not> refresh_succeeded r"
  shows "respond i r w = Some (settle i (Returned result) (release (dispatch_logout w)))"
  using assms by (simp add: respond_def finish_401)

lemma wake_new_logout:
  "wake \<lparr>task_args = a, task_pc = (if b then WaitUnlock0 else ReadyOrig), task_endpoint = Logout\<rparr>
     = \<lparr>task_args = a, task_pc = ReadyOrig, task_endpoint = Logout\<rparr>"
  by (simp add: wake_def)

lemma refresh_failure_effect:
  assumes i: "i < length (tasks w)" and p: "pc_of w i = AwaitRefresh result"
    and r: "is_401 result" and f: "\<not> refresh_succeeded r"
  shows "\<exists>w'. respond i r w = Some w'
     \<and> pc_of w' i = Finished (Returned result)
     \<and> sent w' = sent w \<and> effects w' = effects w
     \<and> storage w' = storage w \<and> cache w' = cache w \<and> \<not> locked w'
     \<and> tasks w' = (map wake (tasks w))[i := (tasks w ! i)\<lparr>task_pc := Finished (Returned result)\<rparr>]
          @ [\<lparr>task_args = logout_args (storage w), task_pc = ReadyOrig, task_endpoint = Logout\<rparr>]"
proof -
  let ?w' = "settle i (Returned result) (release (dispatch_logout w))"
  obtain d where d: "result = Error (HttpError 401 d)" using is_401_Error [OF r] by blast
  have wk: "wake (tasks w ! i) = tasks w ! i"
    using p by (simp add: wake_def pc_of_def)
  have "storage ?w' = storage w \<and> cache ?w' = cache w"
    using settle_keeps_store [of "Returned result" "release (dispatch_logout w)" i] d by simp
  moreover have "tasks ?w' = (map wake (tasks w))[i := (tasks w ! i)\<lparr>task_pc := Finished (Returned result)\<rparr>]
          @ [\<lparr>task_args = logout_args (storage w), task_pc = ReadyOrig, task_endpoint = Logout\<rparr>]"
    using i wk by (simp add: dispatch_logout_def wake_new_logout list_update_append nth_append)
  moreover have "pc_of ?w' i = Finished (Returned result)"
    using i by (simp add: pc_of_def nth_append)
  ultimately show ?thesis
    using refresh_failure_step [OF assms] by (intro exI [of _ ?w']) simp
qed





lemma refresh_detail_case_hidden:
  "isErrorWithDetailArray b = Inr True \<Longrightarrow> first_detail b = Some m \<Longrightarrow>
     str_includes m ''refreshToken'' \<Longrightarrow> refresh_detail_case b = Inr []"
  by (simp add: refresh_detail_case_def)

lemma refresh_detail_case_shown:
  "isErrorWithDetailArray b = Inr True \<Longrightarrow> first_detail b = Some m \<Longrightarrow>
     \<not> str_includes m ''refreshToken'' \<Longrightarrow>
     refresh_detail_case b = Inr [Toast (trimToMaxLength m 100)]"
  by (simp add: refresh_detail_case_def)

text \<open>
  C7, as the claim has it, refuted: the logout mutation, called with no refresh token
  in the store, is answered 400 with a detail that names \<open>refreshToken\<close>. The
  request is not the refresh call, and nothing is shown for it.
\<close>

theorem refreshToken_detail_hidden_on_logout_call:
  "map_option (\<lambda>w. (map (\<lambda>e. (fst (snd e), url (req_args (snd (snd e))))) (sent w), effects w, map task_pc (tasks w)))
      (run [CallLogout, Resume 0, Respond 0 (Error (HttpError 400 (JObj [(''errors'', JArr [JObj [(''detail'', JStr ''refreshToken must be a string; Received value: null'')]])])))] (init ''k'' Map.empty []))
   = Some ([(Original, ''auth/logout'')], [], [Finished (Returned (Error (HttpError 400 (JObj [(''errors'', JArr [JObj [(''detail'', JStr ''refreshToken must be a string; Received value: null'')]])]))))])"
  by code_simp

text \<open>
  C7, amended: \<open>handleErrors\<close> shows nothing for a 400 whose first error detail
  contains the text \<open>refreshToken\<close>, whichever request the error answers; a 400
  with any other first detail shows that detail, capped at 100 characters. The answer
  to the refresh call itself is never handed to \<open>handleErrors\<close>: when it carries no
  token pair (a 400 included) nothing is shown, the logout mutation is dispatched and
  the request ends with its original 401.
\<close>

theorem refreshToken_detail_suppressed:
  "(isErrorWithDetailArray b = Inr True \<and> first_detail b = Some m \<and>
      str_includes m ''refreshToken'' \<longrightarrow>
        handleErrors_reauth (HttpError 400 b) = Inr [])
   \<and> (isErrorWithDetailArray b = Inr True \<and> first_detail b = Some m \<and>
      \<not> str_includes m ''refreshToken'' \<longrightarrow>
        handleErrors_reauth (HttpError 400 b) = Inr [Toast (trimToMaxLength m 100)])
   \<and> (i < length (tasks w) \<and> pc_of w i = AwaitRefresh result \<and> is_401 result \<and>
      \<not> refresh_succeeded r \<longrightarrow>
        (\<exists>w'. respond i r w = Some w'
           \<and> effects w' = effects w
           \<and> pc_of w' i = Finished (Returned result)
           \<and> tasks w' ! length (tasks w) =
               \<lparr>task_args = logout_args (storage w), task_pc = ReadyOrig,
                task_endpoint = Logout\<rparr>))"
proof (intro conjI impI)
  assume "i < length (tasks w) \<and> pc_of w i = AwaitRefresh result \<and> is_401 result \<and>
      \<not> refresh_succeeded r"
  then obtain w' where w': "respond i r w = Some w'" "pc_of w' i = Finished (Returned result)"
    "effects w' = effects w"
    "tasks w' = (map wake (tasks w))[i := (tasks w ! i)\<lparr>task_pc := Finished (Returned result)\<rparr>]
          @ [\<lparr>task_args = logout_args (storage w), task_pc = ReadyOrig, task_endpoint = Logout\<rparr>]"
    using refresh_failure_effect [of i w result r] by blast
  have "tasks w' ! length (tasks w) =
      \<lparr>task_args = logout_args (storage w), task_pc = ReadyOrig, task_endpoint = Logout\<rparr>"
    by (simp add: w'(4) nth_append)
  then show "\<exists>w'. respond i r w = Some w'
           \<and> effects w' = effects w
           \<and> pc_of w' i = Finished (Returned result)
           \<and> tasks w' ! length (tasks w) =
               \<lparr>task_args = logout_args (storage w), task_pc = ReadyOrig,
                task_endpoint = Logout\<rparr>"
    using w' by blast
qed (simp_all add: refresh_detail_case_hidden refresh_detail_case_shown)

lemma example_bodies:
  "isErrorWithDetailArray refreshToken_body = Inr True"
  "first_detail refreshToken_body = Some ''refreshToken must be a string; Received value: null''"
  "str_includes ''refreshToken must be a string; Received value: null'' ''refreshToken''"
  "isErrorWithDetailArray title_body = Inr True"
  "first_detail title_body = Some ''title is too long''"
  "\<not> str_includes ''title is too long'' ''refreshToken''"
  by (simp_all add: refreshToken_body_def title_body_def isErrorWithDetailArray_def
      first_detail_def)

lemma example_world_leader:
  "0 < length (tasks example_world)" "pc_of example_world 0 = AwaitRefresh unauthorized"
  "is_401 unauthorized" "\<not> refresh_succeeded (Error (HttpError 400 refreshToken_body))"
  "length (tasks example_world) = 5" "storage example_world = example_store"
  "effects example_world = []"
  by (simp_all add: example_world_def pc_of_def unauthorized_def is_401_def
      refresh_succeeded_def)

theorem refreshToken_detail_suppressed_witness:
  "handleErrors_reauth (HttpError 400 refreshToken_body) = Inr []
   \<and> handleErrors_reauth (HttpError 400 title_body) = Inr [Toast ''title is too long'']
   \<and> (\<exists>w'. respond 0 (Error (HttpError 400 refreshToken_body)) example_world = Some w'
           \<and> effects w' = []
           \<and> pc_of w' 0 = Finished (Returned unauthorized)
           \<and> tasks w' ! 5 =
               \<lparr>task_args = logout_args example_store, task_pc = ReadyOrig,
                task_endpoint = Logout\<rparr>)"
  using refreshToken_detail_suppressed
      [of refreshToken_body "''refreshToken must be a string; Received value: null''"
        0 example_world unauthorized "Error (HttpError 400 refreshToken_body)"]
    refreshToken_detail_suppressed [of title_body "''title is too long''"]
  by (simp add: example_bodies example_world_leader trimToMaxLength_def)







text \<open>
  C2: a request that is answered 401, runs a refresh that succeeds and is answered 401
  again on its retry ends with that second 401: it has sent the original request, one
  refresh request and one retry, shows nothing, and takes no further step. In every run
  of the coordinator, a call sends the original request at most once more after the
  first time, and at most one refresh request.
\<close>

theorem retry_once:
  "(\<not> locked w \<and> i = length (tasks w) \<and> is_401 r1 \<and> refresh_succeeded rr \<and> is_401 r2 \<longrightarrow>
      (\<exists>w'. run [Call args, Resume i, Respond i r1, Resume i, Respond i rr, Respond i r2] w = Some w'
         \<and> pc_of w' i = Finished (Returned r2)
         \<and> (\<exists>rq1 rq2 rq3.
               sent w' = sent w @ [(i, Original, rq1), (i, Refresh, rq2), (i, Retry, rq3)]
               \<and> req_args rq1 = args \<and> req_args rq3 = args
               \<and> url (req_args rq2) = ''/auth/refresh'')
         \<and> effects w' = effects w
         \<and> resume i w' = None \<and> (\<forall>r. respond i r w' = None)))
   \<and> (run evs (init k s c) = Some w'' \<and> j < length (tasks w'') \<longrightarrow>
        sends w'' j Original \<le> 1 \<and> sends w'' j Refresh \<le> 1 \<and> sends w'' j Retry \<le> 1)"
proof (intro conjI impI)
  assume "\<not> locked w \<and> i = length (tasks w) \<and> is_401 r1 \<and> refresh_succeeded rr \<and> is_401 r2"
  then obtain w' where w': "run [Call args, Resume i, Respond i r1, Resume i, Respond i rr, Respond i r2] w = Some w'"
     "pc_of w' i = Finished (Returned r2)"
     "\<exists>rq1 rq2 rq3. sent w' = sent w @ [(i, Original, rq1), (i, Refresh, rq2), (i, Retry, rq3)]
               \<and> req_args rq1 = args \<and> req_args rq3 = args \<and> url (req_args rq2) = ''/auth/refresh''"
     "effects w' = effects w"
    using retry_scenario [of w i r1 rr r2 args] by blast
  have "resume i w' = None \<and> (\<forall>r. respond i r w' = None)"
    using finished_terminal [of w' i] w'(2) by simp
  then show "\<exists>w'. run [Call args, Resume i, Respond i r1, Resume i, Respond i rr, Respond i r2] w = Some w'
         \<and> pc_of w' i = Finished (Returned r2)
         \<and> (\<exists>rq1 rq2 rq3.
               sent w' = sent w @ [(i, Original, rq1), (i, Refresh, rq2), (i, Retry, rq3)]
               \<and> req_args rq1 = args \<and> req_args rq3 = args
               \<and> url (req_args rq2) = ''/auth/refresh'')
         \<and> effects w' = effects w
         \<and> resume i w' = None \<and> (\<forall>r. respond i r w' = None)"
    using w' by blast
next
  assume h: "run evs (init k s c) = Some w'' \<and> j < length (tasks w'')"
  then have "counted w''" using counted_run [OF counted_init] by blast
  from counted_task [OF this] h
  have "sent_so_far (pc_of w'' j) (sends w'' j Original) (sends w'' j Refresh) (sends w'' j Retry)"
    by blast
  from sent_so_far_bound [OF this]
  show "sends w'' j Original \<le> 1" "sends w'' j Refresh \<le> 1" "sends w'' j Retry \<le> 1"
    by simp_all
qed

theorem retry_once_witness:
  "\<exists>w'. run [Call playlists_args, Resume 0, Respond 0 unauthorized, Resume 0,
             Respond 0 (Data fresh_tokens), Respond 0 unauthorized] (init ''k'' example_store [])
           = Some w'
     \<and> pc_of w' 0 = Finished (Returned unauthorized)
     \<and> map (\<lambda>e. fst (snd e)) (sent w') = [Original, Refresh, Retry]
     \<and> resume 0 w' = None
     \<and> sends w' 0 Original \<le> 1 \<and> sends w' 0 Refresh \<le> 1 \<and> sends w' 0 Retry \<le> 1"
proof -
  have h: "\<not> locked (init ''k'' example_store []) \<and> 0 = length (tasks (init ''k'' example_store []))
      \<and> is_401 unauthorized \<and> refresh_succeeded (Data fresh_tokens) \<and> is_401 unauthorized"
    by (simp add: init_def unauthorized_def is_401_def refresh_succeeded_def fresh_tokens_def
        isTokens_def)
  from retry_once [THEN conjunct1, rule_format, OF h, of playlists_args]
  obtain w' where w': "run [Call playlists_args, Resume 0, Respond 0 unauthorized, Resume 0,
             Respond 0 (Data fresh_tokens), Respond 0 unauthorized] (init ''k'' example_store [])
           = Some w'"
    "pc_of w' 0 = Finished (Returned unauthorized)"
    "\<exists>rq1 rq2 rq3. sent w' = sent (init ''k'' example_store []) @
        [(0, Original, rq1), (0, Refresh, rq2), (0, Retry, rq3)]"
    "resume 0 w' = None"
    by blast
  have L: "map_option (\<lambda>w. length (tasks w))
      (run [Call playlists_args, Resume 0, Respond 0 unauthorized, Resume 0,
             Respond 0 (Data fresh_tokens), Respond 0 unauthorized] (init ''k'' example_store []))
      = Some 1"
    by code_simp
  have l: "0 < length (tasks w')" using L [unfolded w'(1)] by simp
  from retry_once [THEN conjunct2, rule_format, of _ "''k''" example_store "[]" w' 0] w'(1) l
  have "sends w' 0 Original \<le> 1 \<and> sends w' 0 Refresh \<le> 1 \<and> sends w' 0 Retry \<le> 1"
    by blast
  moreover have "map (\<lambda>e. fst (snd e)) (sent w') = [Original, Refresh, Retry]"
    using w'(3) by (auto simp: init_def)
  ultimately show ?thesis
    using w'(1,2,4) by (intro exI [of _ w'] conjI; assumption?) auto
qed



section \<open>Rolling back an optimistic update\<close>














text \<open>
  The keys must be distinct: two cached argument sets that differ in \<open>userId\<close> only
  are rebuilt to the same key, the entry of that key is patched twice, and the undos,
  run in the order of the patches, leave it patched.
\<close>

lemma rollback_with_shared_key:
  "\<not> distinct (map rebuilt_key (selectCachedArgsForQuery shared_key_cache))
   \<and> updatePlaylist_onQueryStarted ''p1'' example_update False shared_key_cache
       \<noteq> shared_key_cache"
  by code_simp

section \<open>One refresh for requests refused together\<close>








lemma finished_not_holds [simp]: "finished p \<Longrightarrow> \<not> holds_lock p"
  by (cases p) simp_all

lemma finished_after_wait [simp]: "finished p \<Longrightarrow> after_wait p"
  by (cases p) simp_all








lemma wake_pc_props [simp]:
  "holds_lock (wake_pc p) = holds_lock p"
  "finished (wake_pc p) = finished p"
  "after_wait p \<Longrightarrow> after_wait (wake_pc p)"
  "after_wait (wake_pc WaitUnlock1)"
  "rank (wake_pc p) \<le> rank p"
  by (cases p; simp)+




lemma moves_not_waiting [simp]: "\<not> moves lk WaitUnlock1 p'" "\<not> moves lk (Finished out) p'"
  by simp_all




























text \<open>
  The requests of the burst share one refresh. The logout mutation that a failed
  refresh dispatches is a call of its own: answered 401, it refreshes again.
\<close>

lemma logout_call_refreshes_again:
  "map_option (\<lambda>w. map (\<lambda>e. (fst e, fst (snd e))) (sent w))
     (run [Call playlists_args, Resume 0, Respond 0 unauthorized, Resume 0,
           Respond 0 (Error (HttpError 400 refreshToken_body)),
           Resume 1, Respond 1 unauthorized, Resume 1]
        (init ''k'' example_store []))
   = Some [(0, Original), (0, Refresh), (1, Original), (1, Refresh)]"
  by code_simp

end
